theory Spec2Isabelle
  imports Complex_Main
begin

section \<open>Hello Chipmunk: one ball, one tilted ground line\<close>

text \<open>
  The program is \<^verbatim>\<open>main.go\<close>: \<^verbatim>\<open>NewGame\<close> builds a physics space holding a static
  ground segment and a ball, \<^verbatim>\<open>Update\<close> advances a clock and (below a cutoff) the
  space, \<^verbatim>\<open>Draw\<close> paints the ball, \<^verbatim>\<open>Layout\<close> reports the screen size.

  Go's \<^verbatim>\<open>float64\<close> is modelled by \<^typ>\<open>real\<close>: additions and comparisons of the clock
  are exact here and rounded in the program. Two library functions have no source in
  the repository and are parameters of the model: \<^verbatim>\<open>cp.Space.Step\<close>, the integrator of
  the physics library (called \<open>Step\<close> below), and \<^verbatim>\<open>ebiten.MaxTPS()\<close>, the tick rate of
  the game framework (called \<open>maxTPS\<close>), which the program reads and never sets.
\<close>

subsection \<open>The constants of main.go\<close>

definition title :: string where
  "title = ''Hello Chipmunk (World)''"

definition simulateMaxSeconds :: int where
  "simulateMaxSeconds = 6"

definition screenWidth :: int where
  "screenWidth = 800"

definition screenHeight :: int where
  "screenHeight = 600"

subsection \<open>The data of the physics library\<close>

text \<open>
  Modelled from the spec: the types \<^verbatim>\<open>cp.Vector\<close>, \<^verbatim>\<open>cp.Body\<close>, \<^verbatim>\<open>cp.Shape\<close> and
  \<^verbatim>\<open>cp.Space\<close> are declared in the physics library. Section 3 of the spec gives what
  they hold: a World has a gravity vector and owns the bodies and shapes added to it; a
  Body has a mass, a moment of inertia, a position, a velocity and an orientation, and
  is static or dynamic; a Shape is a segment or a circle attached to a body, with a
  friction coefficient.
\<close>

record Vector =
  X :: real
  Y :: real

text \<open>\<^verbatim>\<open>cp.Vector{}\<close>: every field at Go's zero value.\<close>

definition zeroVector :: Vector where
  "zeroVector = \<lparr>X = 0, Y = 0\<rparr>"

text \<open>
  \<^verbatim>\<open>cp.MomentForCircle(m, r1, r2, offset)\<close>: the formula belongs to the library, so a
  moment is kept as the call that produced it.
\<close>

datatype Moment = MomentForCircle real real real Vector

datatype BodyType = Dynamic | Static

record Body =
  bodyType :: BodyType
  mass :: real
  moment :: Moment
  position :: Vector
  velocity :: Vector
  angle :: real

text \<open>
  A shape points to the body it is attached to: the static body that the space owns
  (\<^verbatim>\<open>space.StaticBody\<close>) or a body added to the space, named by its place in the
  space's list of bodies.
\<close>

datatype BodyRef = StaticBody | BodyAt nat

datatype Geometry =
  Segment Vector Vector real
  | Circle real Vector

record Shape =
  body :: BodyRef
  geometry :: Geometry
  friction :: real

record Space =
  gravity :: Vector
  bodies :: "Body list"
  shapes :: "Shape list"

text \<open>
  Modelled from the spec: the constructors and setters of the physics library that
  \<^verbatim>\<open>NewGame\<close> calls (create world, set gravity, add static and dynamic bodies and
  shapes with friction). \<^verbatim>\<open>AddBody\<close> and \<^verbatim>\<open>AddShape\<close> return the pointer they were
  given; here the pointer is the index of the new entry.
\<close>

definition NewSpace :: Space where
  "NewSpace = \<lparr>gravity = zeroVector, bodies = [], shapes = []\<rparr>"

definition SetGravity :: "Space \<Rightarrow> Vector \<Rightarrow> Space" where
  "SetGravity sp v = sp\<lparr>gravity := v\<rparr>"

definition NewSegment :: "BodyRef \<Rightarrow> Vector \<Rightarrow> Vector \<Rightarrow> real \<Rightarrow> Shape" where
  "NewSegment b a c r = \<lparr>body = b, geometry = Segment a c r, friction = 0\<rparr>"

definition NewCircle :: "BodyRef \<Rightarrow> real \<Rightarrow> Vector \<Rightarrow> Shape" where
  "NewCircle b r offset = \<lparr>body = b, geometry = Circle r offset, friction = 0\<rparr>"

definition SetFriction :: "Shape \<Rightarrow> real \<Rightarrow> Shape" where
  "SetFriction s u = s\<lparr>friction := u\<rparr>"

definition NewBody :: "real \<Rightarrow> Moment \<Rightarrow> Body" where
  "NewBody m i =
     \<lparr>bodyType = Dynamic, mass = m, moment = i, position = zeroVector,
      velocity = zeroVector, angle = 0\<rparr>"

definition SetPosition :: "Body \<Rightarrow> Vector \<Rightarrow> Body" where
  "SetPosition b p = b\<lparr>position := p\<rparr>"

definition Position :: "Body \<Rightarrow> Vector" where
  "Position b = position b"

definition Velocity :: "Body \<Rightarrow> Vector" where
  "Velocity b = velocity b"

definition AddShape :: "Space \<Rightarrow> Shape \<Rightarrow> nat \<times> Space" where
  "AddShape sp s = (length (shapes sp), sp\<lparr>shapes := shapes sp @ [s]\<rparr>)"

definition AddBody :: "Space \<Rightarrow> Body \<Rightarrow> nat \<times> Space" where
  "AddBody sp b = (length (bodies sp), sp\<lparr>bodies := bodies sp @ [b]\<rparr>)"

text \<open>
  A call through a pointer that the space also holds (\<^verbatim>\<open>ballBody.SetPosition\<close>,
  \<^verbatim>\<open>ballShape.SetFriction\<close>) changes the entry inside the space.
\<close>

definition onBody :: "Space \<Rightarrow> nat \<Rightarrow> (Body \<Rightarrow> Body) \<Rightarrow> Space" where
  "onBody sp h f = sp\<lparr>bodies := (bodies sp)[h := f (bodies sp ! h)]\<rparr>"

definition onShape :: "Space \<Rightarrow> nat \<Rightarrow> (Shape \<Rightarrow> Shape) \<Rightarrow> Space" where
  "onShape sp h f = sp\<lparr>shapes := (shapes sp)[h := f (shapes sp ! h)]\<rparr>"

text \<open>
  Following a body pointer. The only pointer the program keeps is the one \<^verbatim>\<open>AddBody\<close>
  returned in \<^verbatim>\<open>NewGame\<close>, index 0 of a list of one body, and nothing in \<^verbatim>\<open>main.go\<close>
  removes a body.
\<close>

definition bodyOf :: "Space \<Rightarrow> nat \<Rightarrow> Body" where
  "bodyOf sp h = bodies sp ! h"

subsection \<open>The game\<close>

text \<open>
  \<^verbatim>\<open>type Game struct { space *cp.Space; ballBody *cp.Body; time float64 }\<close>. The
  ball pointer is the index of the ball in the space's bodies.
\<close>

record Game =
  space :: Space
  ballBody :: nat
  time :: real

definition NewGame :: Game where
  "NewGame =
     (let gravity0 = zeroVector\<lparr>Y := 100\<rparr>;
          space0 = SetGravity NewSpace gravity0;
          ground = NewSegment StaticBody zeroVector
                     \<lparr>X = real_of_int screenWidth, Y = real_of_int screenHeight\<rparr> 0;
          ground = SetFriction ground 1;
          (_, space0) = AddShape space0 ground;
          radius = 5;
          mass0 = 1;
          moment0 = MomentForCircle mass0 0 radius zeroVector;
          (ballBody0, space0) = AddBody space0 (NewBody mass0 moment0);
          space0 = onBody space0 ballBody0 (\<lambda>b. SetPosition b
                     \<lparr>X = real_of_int (screenWidth div 2),
                      Y = real_of_int (screenHeight div 4)\<rparr>);
          (ballShape, space0) = AddShape space0 (NewCircle (BodyAt ballBody0) radius zeroVector);
          space0 = onShape space0 ballShape (\<lambda>s. SetFriction s 0.7)
      in \<lparr>space = space0, ballBody = ballBody0, time = 0\<rparr>)"

text \<open>Go's \<^verbatim>\<open>error\<close>; \<^verbatim>\<open>nil\<close> is \<open>None\<close>.\<close>

datatype error = Error string

text \<open>
  \<^verbatim>\<open>func (g *Game) Update() error\<close>. The clock is advanced first, on every call; the
  guard then reads the advanced clock. \<open>Step\<close> is \<^verbatim>\<open>cp.Space.Step\<close> and \<open>maxTPS\<close> is
  what \<^verbatim>\<open>ebiten.MaxTPS()\<close> returns at this call. (For \<open>maxTPS = 0\<close> Go's quotient is
  \<open>+Inf\<close> and HOL's is \<open>0\<close>: the theorems about the time step assume \<open>0 < maxTPS\<close>.)
\<close>

definition Update :: "(real \<Rightarrow> Space \<Rightarrow> Space) \<Rightarrow> int \<Rightarrow> Game \<Rightarrow> Game \<times> error option" where
  "Update Step maxTPS g =
     (let timeStep = 1 / real_of_int maxTPS;
          g = g\<lparr>time := time g + timeStep\<rparr>;
          g = (if time g < real_of_int simulateMaxSeconds
               then g\<lparr>space := Step timeStep (space g)\<rparr>
               else g)
      in (g, None))"

text \<open>
  The rendering library is not part of the repository either. An image is its size and
  the drawing calls made on it, in order, with their arguments; \<^verbatim>\<open>fmt.Sprintf\<close> is kept
  as its format and its arguments.
\<close>

datatype Color = Black | White

datatype Image = NewImage int int "DrawCall list"
and DrawCall =
  Fill Color
  | DrawLine real real real real Color
  | DrawImage Image "real \<times> real \<times> real \<times> real" "real \<times> real"
  | DebugPrint string "real list"

fun draw :: "Image \<Rightarrow> DrawCall \<Rightarrow> Image" where
  "draw (NewImage w h cs) c = NewImage w h (cs @ [c])"

text \<open>\<^verbatim>\<open>var ball = ebiten.NewImage(5, 5)\<close>, filled white by \<^verbatim>\<open>init\<close>.\<close>

definition ball :: Image where
  "ball = draw (NewImage 5 5 []) (Fill White)"

text \<open>\<^verbatim>\<open>func (g *Game) Draw(screen *ebiten.Image)\<close>: the game and the screen, both after the call.\<close>

definition Draw :: "Game \<Rightarrow> Image \<Rightarrow> Game \<times> Image" where
  "Draw g screen =
     (let screen = draw screen (Fill Black);
          screen = draw screen
                     (DrawLine 0 0 (real_of_int screenWidth) (real_of_int screenHeight) White);
          colorM = (200 / 255, 200 / 255, 200 / 255, 1);
          geoM = (X (Position (bodyOf (space g) (ballBody g))),
                  Y (Position (bodyOf (space g) (ballBody g))));
          screen = draw screen (DrawImage ball colorM geoM);
          screen = (if time g < real_of_int simulateMaxSeconds
                    then (let pos = Position (bodyOf (space g) (ballBody g));
                              vel = Velocity (bodyOf (space g) (ballBody g))
                          in draw screen (DebugPrint
                               ''Time is %5.2f. ballBody is at (%5.2f, %5.2f). It's velocity is (%5.2f, %5.2f)''
                               [time g, X pos, Y pos, X vel, Y vel]))
                    else screen)
      in (g, screen))"

text \<open>\<^verbatim>\<open>func (g *Game) Layout(_, _ int) (int, int)\<close>.\<close>

definition Layout :: "Game \<Rightarrow> int \<Rightarrow> int \<Rightarrow> int \<times> int" where
  "Layout g outsideWidth outsideHeight = (screenWidth, screenHeight)"

subsection \<open>Runs and concrete inputs\<close>

text \<open>
  Modelled from the spec: the frame loop \<^verbatim>\<open>ebiten.RunGame\<close> belongs to the game
  framework; it invokes the update step once per frame, strictly sequentially. A run is
  the sequence of \<^verbatim>\<open>Update\<close> calls it makes; the list gives what \<^verbatim>\<open>ebiten.MaxTPS()\<close>
  returned at each of them.
\<close>

fun updates :: "(real \<Rightarrow> Space \<Rightarrow> Space) \<Rightarrow> int list \<Rightarrow> Game \<Rightarrow> Game" where
  "updates Step [] g = g"
| "updates Step (t # ts) g = updates Step ts (fst (Update Step t g))"

text \<open>
  An integrator to run the model on. \<^verbatim>\<open>cp.Space.Step\<close> is a parameter of every
  theorem below; where a theorem is evaluated at a concrete input, this function stands
  in its place. Every dynamic body gains \<open>dt\<close> times the gravity in velocity and then
  moves by \<open>dt\<close> times its new velocity; shapes are ignored, so nothing collides.
\<close>

definition gravityStep :: "real \<Rightarrow> Space \<Rightarrow> Space" where
  "gravityStep dt sp =
     sp\<lparr>bodies := map (\<lambda>b. if bodyType b = Dynamic
                            then (let v = \<lparr>X = X (velocity b) + dt * X (gravity sp),
                                           Y = Y (velocity b) + dt * Y (gravity sp)\<rparr>
                                  in b\<lparr>velocity := v,
                                       position := \<lparr>X = X (position b) + dt * X v,
                                                    Y = Y (position b) + dt * Y v\<rparr>\<rparr>)
                            else b) (bodies sp)\<rparr>"

text \<open>The game as \<open>NewGame\<close> built it, with the clock reading \<open>t\<close>.\<close>

definition atClock :: "real \<Rightarrow> Game" where
  "atClock t = NewGame\<lparr>time := t\<rparr>"

section \<open>Properties\<close>

subsection \<open>What the functions compute\<close>

lemmas cp_defs = NewSpace_def SetGravity_def NewSegment_def NewCircle_def SetFriction_def
  NewBody_def SetPosition_def AddShape_def AddBody_def onBody_def onShape_def zeroVector_def

lemma NewGame_value:
  "NewGame =
     \<lparr>space =
        \<lparr>gravity = \<lparr>X = 0, Y = 100\<rparr>,
         bodies = [\<lparr>bodyType = Dynamic, mass = 1,
                    moment = MomentForCircle 1 0 5 \<lparr>X = 0, Y = 0\<rparr>,
                    position = \<lparr>X = 400, Y = 150\<rparr>,
                    velocity = \<lparr>X = 0, Y = 0\<rparr>, angle = 0\<rparr>],
         shapes = [\<lparr>body = StaticBody,
                    geometry = Segment \<lparr>X = 0, Y = 0\<rparr> \<lparr>X = 800, Y = 600\<rparr> 0,
                    friction = 1\<rparr>,
                   \<lparr>body = BodyAt 0, geometry = Circle 5 \<lparr>X = 0, Y = 0\<rparr>,
                    friction = 0.7\<rparr>]\<rparr>,
      ballBody = 0, time = 0\<rparr>"
  by (simp add: NewGame_def cp_defs screenWidth_def screenHeight_def)

lemma Update_time: "time (fst (Update Step maxTPS g)) = time g + 1 / real_of_int maxTPS"
  by (simp add: Update_def Let_def)

lemma Update_ballBody: "ballBody (fst (Update Step maxTPS g)) = ballBody g"
  by (simp add: Update_def Let_def)

text \<open>The guard of \<open>Update\<close> reads the clock after the time step has been added.\<close>

lemma Update_space:
  "space (fst (Update Step maxTPS g)) =
     (if time g + 1 / real_of_int maxTPS < real_of_int simulateMaxSeconds
      then Step (1 / real_of_int maxTPS) (space g) else space g)"
  by (simp add: Update_def Let_def)

lemma timeStep_pos: "0 < maxTPS \<Longrightarrow> 0 < 1 / real_of_int maxTPS"
  by simp

lemma updates_time:
  "time (updates Step ts g) = time g + (\<Sum>t\<leftarrow>ts. 1 / real_of_int t)"
  by (induction ts arbitrary: g) (simp_all add: Update_time)

lemma updates_replicate_time:
  "time (updates Step (replicate n tps) g) = time g + real n / real_of_int tps"
  by (simp add: updates_time sum_list_replicate)

subsection \<open>The scenario\<close>

text \<open>
  C5: \<open>NewGame\<close> constructs exactly the example scenario: the gravity vector has
  \<open>Y = 100\<close> (and \<open>X = 0\<close>); the only body is the ball, dynamic, of mass 1, at
  \<open>(400, 150)\<close> and at rest; the shapes are the ground, a segment from \<open>(0, 0)\<close> to
  \<open>(800, 600)\<close> on the static body with friction 1, and the ball's circle of radius 5
  with friction 0.7; the clock starts at 0 and the cutoff is 6 seconds.
\<close>

theorem NewGame_scenario:
  "NewGame =
     \<lparr>space =
        \<lparr>gravity = \<lparr>X = 0, Y = 100\<rparr>,
         bodies = [\<lparr>bodyType = Dynamic, mass = 1,
                    moment = MomentForCircle 1 0 5 \<lparr>X = 0, Y = 0\<rparr>,
                    position = \<lparr>X = 400, Y = 150\<rparr>,
                    velocity = \<lparr>X = 0, Y = 0\<rparr>, angle = 0\<rparr>],
         shapes = [\<lparr>body = StaticBody,
                    geometry = Segment \<lparr>X = 0, Y = 0\<rparr> \<lparr>X = 800, Y = 600\<rparr> 0,
                    friction = 1\<rparr>,
                   \<lparr>body = BodyAt 0, geometry = Circle 5 \<lparr>X = 0, Y = 0\<rparr>,
                    friction = 0.7\<rparr>]\<rparr>,
      ballBody = 0, time = 0\<rparr>
   \<and> Position (bodyOf (space NewGame) (ballBody NewGame)) = \<lparr>X = 400, Y = 150\<rparr>
   \<and> simulateMaxSeconds = 6"
proof -
  have "Position (bodyOf (space NewGame) (ballBody NewGame)) = \<lparr>X = 400, Y = 150\<rparr>"
    by (simp add: NewGame_value Position_def bodyOf_def)
  then show ?thesis
    by (simp add: NewGame_value simulateMaxSeconds_def)
qed

text \<open>
  C10: \<open>Layout\<close> ignores both of its integer arguments: for every pair of input
  dimensions it returns exactly \<open>(800, 600)\<close>.
\<close>

theorem Layout_fixed: "Layout g outsideWidth outsideHeight = (800, 600)"
  by (simp add: Layout_def screenWidth_def screenHeight_def)

subsection \<open>One call of Update\<close>

text \<open>
  C8: \<open>Update\<close> never reports a failure: for every game state (and every integrator
  and tick rate) it returns the nil error.
\<close>

theorem Update_returns_nil: "snd (Update Step maxTPS g) = None"
  by (simp add: Update_def Let_def)

text \<open>
  C1: a call of \<open>Update\<close> made when the clock is at or above the cutoff leaves the
  space unchanged, and with it the ball's position and velocity. The tick rate is
  positive, so the time step is.
\<close>

theorem Update_at_cutoff_leaves_world:
  assumes "0 < maxTPS" and "real_of_int simulateMaxSeconds \<le> time g"
  shows "space (fst (Update Step maxTPS g)) = space g
       \<and> ballBody (fst (Update Step maxTPS g)) = ballBody g
       \<and> Position (bodyOf (space (fst (Update Step maxTPS g)))
                           (ballBody (fst (Update Step maxTPS g))))
           = Position (bodyOf (space g) (ballBody g))
       \<and> Velocity (bodyOf (space (fst (Update Step maxTPS g)))
                           (ballBody (fst (Update Step maxTPS g))))
           = Velocity (bodyOf (space g) (ballBody g))"
proof -
  from assms(1) have "0 < 1 / real_of_int maxTPS"
    by (rule timeStep_pos)
  with assms(2) have "\<not> time g + 1 / real_of_int maxTPS < real_of_int simulateMaxSeconds"
    by linarith
  then have "space (fst (Update Step maxTPS g)) = space g"
    by (simp add: Update_space)
  then show ?thesis
    by (simp add: Update_ballBody)
qed

theorem Update_at_cutoff_leaves_world_witness:
  "(0::int) < 60 \<and> real_of_int simulateMaxSeconds \<le> time (atClock 6)
   \<and> space (fst (Update gravityStep 60 (atClock 6))) = space (atClock 6)
   \<and> Position (bodyOf (space (fst (Update gravityStep 60 (atClock 6))))
                       (ballBody (fst (Update gravityStep 60 (atClock 6)))))
       = \<lparr>X = 400, Y = 150\<rparr>
   \<and> Velocity (bodyOf (space (fst (Update gravityStep 60 (atClock 6))))
                       (ballBody (fst (Update gravityStep 60 (atClock 6)))))
       = \<lparr>X = 0, Y = 0\<rparr>"
  using Update_at_cutoff_leaves_world [of 60 "atClock 6" gravityStep]
  by (simp add: atClock_def simulateMaxSeconds_def NewGame_value bodyOf_def
      Position_def Velocity_def)

text \<open>
  The same over any number of further calls: once the clock is at or above the cutoff,
  the space stays as it is.
\<close>

lemma updates_frozen:
  "\<forall>t\<in>set ts. 0 < t \<Longrightarrow> real_of_int simulateMaxSeconds \<le> time g \<Longrightarrow>
     space (updates Step ts g) = space g"
proof (induction ts arbitrary: g)
  case Nil
  then show ?case by simp
next
  case (Cons t ts)
  from Cons.prems have pos: "0 < 1 / real_of_int t" by simp
  with Cons.prems(2) have late: "real_of_int simulateMaxSeconds \<le> time g + 1 / real_of_int t"
    by linarith
  then have here: "space (fst (Update Step t g)) = space g"
    by (simp add: Update_space)
  from Cons.prems(1) have "\<forall>t\<in>set ts. 0 < t" by simp
  from Cons.IH [OF this, of "fst (Update Step t g)"] late here
  show ?case by (simp add: Update_time)
qed

text \<open>
  C2, as the spec has it: every call of \<open>Update\<close> made while the clock is below the
  cutoff advances the space by one step. It fails for a call that starts below the
  cutoff and whose time step reaches it: with the clock at 5.99 and 60 ticks per second
  the advanced clock is above 6, the guard is false and the space is left as it was,
  which is not the space one step later.
\<close>

theorem Update_below_cutoff_counterexample:
  "time (atClock 5.99) < real_of_int simulateMaxSeconds
   \<and> space (fst (Update gravityStep 60 (atClock 5.99))) = space (atClock 5.99)
   \<and> space (fst (Update gravityStep 60 (atClock 5.99)))
       \<noteq> gravityStep (1 / 60) (space (atClock 5.99))"
  by (simp add: atClock_def simulateMaxSeconds_def NewGame_value Update_space gravityStep_def)

text \<open>
  C2, amended: every call of \<open>Update\<close> made while the clock is below the cutoff
  strictly increases the clock by exactly the time step. It advances the space by
  exactly one step of that time step when the clock so advanced is still below the
  cutoff; when the advanced clock has reached the cutoff (the clock before the call was
  within one time step of it), it leaves the space unchanged.
\<close>

theorem Update_below_cutoff:
  assumes "0 < maxTPS" and "time g < real_of_int simulateMaxSeconds"
  shows "time (fst (Update Step maxTPS g)) = time g + 1 / real_of_int maxTPS
       \<and> time g < time (fst (Update Step maxTPS g))
       \<and> space (fst (Update Step maxTPS g))
           = (if time g + 1 / real_of_int maxTPS < real_of_int simulateMaxSeconds
              then Step (1 / real_of_int maxTPS) (space g)
              else space g)"
  using assms(1) by (simp add: Update_space Update_time)

theorem Update_below_cutoff_witness:
  "(0::int) < 60
   \<and> time NewGame < real_of_int simulateMaxSeconds
   \<and> time (fst (Update gravityStep 60 NewGame)) = 1 / 60
   \<and> time NewGame < time (fst (Update gravityStep 60 NewGame))
   \<and> space (fst (Update gravityStep 60 NewGame)) = gravityStep (1 / 60) (space NewGame)
   \<and> time (atClock 5.99) < real_of_int simulateMaxSeconds
   \<and> time (fst (Update gravityStep 60 (atClock 5.99))) = 5.99 + 1 / 60
   \<and> time (atClock 5.99) < time (fst (Update gravityStep 60 (atClock 5.99)))
   \<and> space (fst (Update gravityStep 60 (atClock 5.99))) = space (atClock 5.99)"
  using Update_below_cutoff [of 60 NewGame gravityStep]
    Update_below_cutoff [of 60 "atClock 5.99" gravityStep]
  by (simp add: atClock_def simulateMaxSeconds_def NewGame_value)

text \<open>
  Every run at a fixed tick rate that starts below the cutoff has such a call: after
  some number of calls the clock is still below the cutoff and the next call leaves the
  space as it is. Which call it is depends on the arithmetic: from \<open>NewGame\<close> at 60
  ticks per second the exact clock reaches 6 at the 360th call, while 360 rounded
  \<^verbatim>\<open>float64\<close> additions of 1/60 give a clock just below 6, so that the program still
  steps at its 360th call and stops at the 361st.
\<close>

lemma crossing_call:
  assumes "0 < tps" and "time g < real_of_int simulateMaxSeconds"
  shows "\<exists>n. time (updates Step (replicate n tps) g) < real_of_int simulateMaxSeconds
           \<and> space (fst (Update Step tps (updates Step (replicate n tps) g)))
               = space (updates Step (replicate n tps) g)"
proof -
  define x where "x = (real_of_int simulateMaxSeconds - time g) * real_of_int tps"
  define n where "n = nat (\<lceil>x\<rceil> - 1)"
  from assms have "0 < x" by (simp add: x_def)
  then have "1 \<le> \<lceil>x\<rceil>" by linarith
  then have n: "real n = of_int \<lceil>x\<rceil> - 1" by (simp add: n_def)
  have lo: "real n < x" using n by linarith
  have hi: "x \<le> real n + 1" using n by linarith
  from assms(1) have tp: "0 < real_of_int tps" by simp
  from lo tp have "real n / real_of_int tps < real_of_int simulateMaxSeconds - time g"
    by (simp add: x_def pos_divide_less_eq)
  then have before: "time (updates Step (replicate n tps) g) < real_of_int simulateMaxSeconds"
    by (simp add: updates_replicate_time)
  from hi tp have "real_of_int simulateMaxSeconds - time g \<le> (real n + 1) / real_of_int tps"
    by (simp add: x_def pos_le_divide_eq)
  then have "\<not> time (updates Step (replicate n tps) g) + 1 / real_of_int tps
               < real_of_int simulateMaxSeconds"
    by (simp add: updates_replicate_time add_divide_distrib)
  then have "space (fst (Update Step tps (updates Step (replicate n tps) g)))
               = space (updates Step (replicate n tps) g)"
    by (simp add: Update_space)
  with before show ?thesis by blast
qed

subsection \<open>The clock\<close>

text \<open>
  C4, as the spec has it: a call of \<open>Update\<close> made when the clock is at or above the
  cutoff leaves the clock as it was. It does not: the clock is advanced before the
  guard, on every call. With the clock at 6 and 60 ticks per second the clock after
  the call is 6 + 1/60.
\<close>

theorem Update_clock_frozen_counterexample:
  "real_of_int simulateMaxSeconds \<le> time (atClock 6)
   \<and> time (fst (Update gravityStep 60 (atClock 6))) \<noteq> time (atClock 6)"
  by (simp add: atClock_def simulateMaxSeconds_def Update_time)

text \<open>
  C4, amended: the clock increases on every call of \<open>Update\<close>, whether it is below
  the cutoff or at or above it: the clock after the call is the clock before the call
  plus the time step, and strictly greater.
\<close>

theorem Update_clock_every_call:
  assumes "0 < maxTPS"
  shows "time (fst (Update Step maxTPS g)) = time g + 1 / real_of_int maxTPS
       \<and> time g < time (fst (Update Step maxTPS g))"
  using assms by (simp add: Update_time)

theorem Update_clock_every_call_witness:
  "(0::int) < 60
   \<and> real_of_int simulateMaxSeconds \<le> time (atClock 6)
   \<and> time (fst (Update gravityStep 60 (atClock 6))) = 6 + 1 / 60
   \<and> time (atClock 6) < time (fst (Update gravityStep 60 (atClock 6)))
   \<and> time NewGame < real_of_int simulateMaxSeconds
   \<and> time (fst (Update gravityStep 60 NewGame)) = 1 / 60
   \<and> time NewGame < time (fst (Update gravityStep 60 NewGame))"
  using Update_clock_every_call [of 60 gravityStep "atClock 6"]
    Update_clock_every_call [of 60 gravityStep NewGame]
  by (simp add: atClock_def simulateMaxSeconds_def NewGame_value)

subsection \<open>The time step over a run\<close>









subsection \<open>Draw\<close>

text \<open>
  C7: a call of \<open>Draw\<close> reads the physics state and does not change it: the game after
  the call is the game before it, so the space, the ball's position and velocity and
  the clock are the same; only the screen is drawn on.
\<close>

theorem Draw_reads_only:
  "fst (Draw g screen) = g
   \<and> space (fst (Draw g screen)) = space g
   \<and> Position (bodyOf (space (fst (Draw g screen))) (ballBody (fst (Draw g screen))))
       = Position (bodyOf (space g) (ballBody g))
   \<and> Velocity (bodyOf (space (fst (Draw g screen))) (ballBody (fst (Draw g screen))))
       = Velocity (bodyOf (space g) (ballBody g))
   \<and> time (fst (Draw g screen)) = time g"
proof -
  have "fst (Draw g screen) = g"
    by (simp add: Draw_def Let_def)
  then show ?thesis by simp
qed

end
